theory Spec2Isabelle
  imports Complex_Main
begin

section \<open>JavaScript values\<close>

text \<open>
  The normalizer of \<^verbatim>\<open>utils/apiTransform.js\<close> computes with JavaScript numbers and strings.
  Numbers are embedded as reals: every numeric field of the payload is a finite number and
  arithmetic on numbers is exact, so the rounding error and the overflow of IEEE doubles are
  not part of this development. What is part of it is every way the source leaves the
  numbers: an absent field read in arithmetic (\<^verbatim>\<open>undefined * 10\<close> is \<^verbatim>\<open>NaN\<close>), and a lookup
  in an object literal that finds a member inherited from \<^verbatim>\<open>Object.prototype\<close> instead of
  a table entry.

  \<^item> \<open>Num x\<close> is the number \<open>x\<close>;
  \<^item> \<open>NaN\<close> is not-a-number;
  \<^item> \<open>Member\<close> is a member inherited from \<^verbatim>\<open>Object.prototype\<close> (a function such as
    \<^verbatim>\<open>toString\<close>, or the prototype itself for \<^verbatim>\<open>__proto__\<close>); it is truthy and converts to
    \<^verbatim>\<open>NaN\<close> as a number;
  \<^item> \<open>Text\<close> is the string that \<^verbatim>\<open>+\<close> builds when one operand is such a member or such a
    string: it holds the member's source text, so it never reads as a number.
\<close>

datatype jsval = Num real | NaN | Member | Text

text \<open>A string-valued result that may also be an inherited member.\<close>

datatype jslabel = Str string | MemberLabel

text \<open>The result of reading \<^verbatim>\<open>obj[key]\<close> on an object literal.\<close>

datatype 'a slot = Own 'a | Inherited | Missing

text \<open>
  A scalar field of the payload, which is JSON: the field is absent (it reads as
  \<^verbatim>\<open>undefined\<close>), or holds \<^verbatim>\<open>null\<close>, or holds a value of its type.
\<close>

datatype 'a jsfield = Absent | Null | Val 'a

fun js_add :: "jsval \<Rightarrow> jsval \<Rightarrow> jsval" where
  "js_add (Num a) (Num b) = Num (a + b)"
| "js_add (Num a) NaN = NaN"
| "js_add NaN (Num b) = NaN"
| "js_add NaN NaN = NaN"
| "js_add _ _ = Text"

fun js_sub :: "jsval \<Rightarrow> jsval \<Rightarrow> jsval" where
  "js_sub (Num a) (Num b) = Num (a - b)"
| "js_sub _ _ = NaN"

fun js_mul :: "jsval \<Rightarrow> jsval \<Rightarrow> jsval" where
  "js_mul (Num a) (Num b) = Num (a * b)"
| "js_mul _ _ = NaN"

text \<open>\<^verbatim>\<open>Math.round\<close> rounds to the nearest integer, a tie towards plus infinity.\<close>

fun Math_round :: "jsval \<Rightarrow> jsval" where
  "Math_round (Num x) = Num (of_int \<lfloor>x + 1 / 2\<rfloor>)"
| "Math_round _ = NaN"

fun Math_min :: "jsval \<Rightarrow> jsval \<Rightarrow> jsval" where
  "Math_min (Num a) (Num b) = Num (min a b)"
| "Math_min _ _ = NaN"

fun Math_max :: "jsval \<Rightarrow> jsval \<Rightarrow> jsval" where
  "Math_max (Num a) (Num b) = Num (max a b)"
| "Math_max _ _ = NaN"

fun Math_abs :: "jsval \<Rightarrow> jsval" where
  "Math_abs (Num x) = Num \<bar>x\<bar>"
| "Math_abs _ = NaN"

text \<open>
  \<^verbatim>\<open>x || d\<close> on a numeric field: \<^verbatim>\<open>undefined\<close>, \<^verbatim>\<open>null\<close> and the number 0 are all falsy.
\<close>

definition num_or :: "real jsfield \<Rightarrow> real \<Rightarrow> real" where
  "num_or x d = (case x of Val v \<Rightarrow> if v = 0 then d else v | _ \<Rightarrow> d)"

text \<open>
  \<^verbatim>\<open>x || d\<close> on a string field: \<^verbatim>\<open>undefined\<close>, \<^verbatim>\<open>null\<close> and the empty string are all falsy.
\<close>

definition str_or :: "string jsfield \<Rightarrow> string \<Rightarrow> string" where
  "str_or x d = (case x of Val s \<Rightarrow> if s = [] then d else s | _ \<Rightarrow> d)"

text \<open>\<^verbatim>\<open>x && p(x)\<close> on a string field.\<close>

definition str_and :: "string jsfield \<Rightarrow> (string \<Rightarrow> bool) \<Rightarrow> bool" where
  "str_and x p = (case x of Val s \<Rightarrow> s \<noteq> [] \<and> p s | _ \<Rightarrow> False)"

text \<open>
  A numeric field read in arithmetic: \<^verbatim>\<open>undefined\<close> converts to \<^verbatim>\<open>NaN\<close> and \<^verbatim>\<open>null\<close> to 0.
\<close>

definition to_number :: "real jsfield \<Rightarrow> jsval" where
  "to_number x = (case x of Absent \<Rightarrow> NaN | Null \<Rightarrow> Num 0 | Val v \<Rightarrow> Num v)"

text \<open>
  \<^verbatim>\<open>x >= c\<close> on a numeric field: every comparison with \<^verbatim>\<open>undefined\<close> is false, and \<^verbatim>\<open>null\<close>
  compares as 0.
\<close>

definition num_ge :: "real jsfield \<Rightarrow> real \<Rightarrow> bool" where
  "num_ge x c = (case x of Absent \<Rightarrow> False | Null \<Rightarrow> 0 \<ge> c | Val v \<Rightarrow> v \<ge> c)"

text \<open>
  A field as a string, inside a template literal or as a property key: \<^verbatim>\<open>undefined\<close> and
  \<^verbatim>\<open>null\<close> print as their names.
\<close>

definition template :: "string jsfield \<Rightarrow> string" where
  "template x = (case x of Absent \<Rightarrow> ''undefined'' | Null \<Rightarrow> ''null'' | Val s \<Rightarrow> s)"

subsection \<open>Object literals\<close>

text \<open>
  The names every object literal inherits from \<^verbatim>\<open>Object.prototype\<close>. Each of them is a
  function, except \<^verbatim>\<open>__proto__\<close>, which reads as the prototype object.
\<close>

definition Object_prototype :: "string list" where
  "Object_prototype =
     [''constructor'', ''__proto__'', ''hasOwnProperty'', ''isPrototypeOf'',
      ''propertyIsEnumerable'', ''toLocaleString'', ''toString'', ''valueOf'',
      ''__defineGetter__'', ''__defineSetter__'', ''__lookupGetter__'', ''__lookupSetter__'']"

text \<open>\<^verbatim>\<open>obj[key]\<close>: the object's own entry, else an inherited member, else \<^verbatim>\<open>undefined\<close>.\<close>

definition js_get :: "(string \<times> 'a) list \<Rightarrow> string \<Rightarrow> 'a slot" where
  "js_get obj k =
     (case map_of obj k of
        Some v \<Rightarrow> Own v
      | None \<Rightarrow> if k \<in> set Object_prototype then Inherited else Missing)"

text \<open>A field used as a key is the property name that the field prints as.\<close>

definition key_of :: "string jsfield \<Rightarrow> string" where
  "key_of x = template x"

text \<open>\<^verbatim>\<open>table[key] || d\<close> for a table of numbers.\<close>

definition slot_num_or :: "real slot \<Rightarrow> real \<Rightarrow> jsval" where
  "slot_num_or s d =
     (case s of Own v \<Rightarrow> Num (if v = 0 then d else v) | Inherited \<Rightarrow> Member | Missing \<Rightarrow> Num d)"

text \<open>\<^verbatim>\<open>table[key] || d\<close> for a table of strings.\<close>

definition slot_str_or :: "string slot \<Rightarrow> string \<Rightarrow> jslabel" where
  "slot_str_or s d =
     (case s of Own v \<Rightarrow> Str (if v = [] then d else v) | Inherited \<Rightarrow> MemberLabel
      | Missing \<Rightarrow> Str d)"

subsection \<open>Strings\<close>

text \<open>
  A string is a list of code units, each below 256 (the type \<open>char\<close>). On these,
  \<^verbatim>\<open>toLowerCase\<close> moves the letters A to Z and the accented capitals 192 to 222 (215, the
  multiplication sign, apart) by 32, and the white space of \<^verbatim>\<open>trim\<close> and of \<^verbatim>\<open>\s\<close> is tab,
  line feed, vertical tab, form feed, carriage return, space and no-break space.
\<close>

definition lower_char :: "char \<Rightarrow> char" where
  "lower_char c =
     (let n = (of_char c :: nat)
      in if (65 \<le> n \<and> n \<le> 90) \<or> (192 \<le> n \<and> n \<le> 222 \<and> n \<noteq> 215)
         then char_of (n + 32) else c)"

definition toLowerCase :: "string \<Rightarrow> string" where
  "toLowerCase s = map lower_char s"

text \<open>\<^verbatim>\<open>x?.toLowerCase()\<close> on a string field: \<^verbatim>\<open>undefined\<close> when there is no string.\<close>

definition opt_lower :: "string jsfield \<Rightarrow> string jsfield" where
  "opt_lower x = (case x of Val s \<Rightarrow> Val (toLowerCase s) | _ \<Rightarrow> Absent)"

fun str_includes :: "string \<Rightarrow> string \<Rightarrow> bool" where
  "str_includes [] sub = (sub = [])"
| "str_includes (c # cs) sub = (take (length sub) (c # cs) = sub \<or> str_includes cs sub)"

definition is_space :: "char \<Rightarrow> bool" where
  "is_space c = ((of_char c :: nat) \<in> {9, 10, 11, 12, 13, 32, 160})"

definition trim :: "string \<Rightarrow> string" where
  "trim s = rev (dropWhile is_space (rev (dropWhile is_space s)))"

text \<open>\<^verbatim>\<open>s.split('\n')\<close>: the pieces between line feeds; the empty string gives one empty piece.\<close>

fun split_lines :: "string \<Rightarrow> string list" where
  "split_lines [] = [[]]"
| "split_lines (c # cs) =
     (if c = CHR 0x0A then [] # split_lines cs
      else (case split_lines cs of l # ls \<Rightarrow> (c # l) # ls | [] \<Rightarrow> [[c]]))"

text \<open>\<^verbatim>\<open>xs.join(sep)\<close> on an array of strings.\<close>

fun join :: "string list \<Rightarrow> string \<Rightarrow> string" where
  "join [] sep = []"
| "join [x] sep = x"
| "join (x # y # ys) sep = x @ sep @ join (y # ys) sep"

section \<open>The payload\<close>

text \<open>
  One treatment's output of one agent. The source reads every agent's sub-object as a plain
  object, so one record holds the fields of all four agents, each of them optional.
\<close>

record agent_out =
  invasiveness_score :: "real jsfield"
  recovery_time_days :: "real jsfield"
  medication_burden_score :: "real jsfield"
  lifestyle_impact :: "string jsfield"
  disease_stability :: "string jsfield"
  complication_probability :: "real jsfield"
  readmission_risk :: "string jsfield"
  severity_score :: "real jsfield"
  safety_status :: "string jsfield"
  identified_contraindications :: "string list jsfield"
  recommendation :: "string jsfield"
  insights :: "string jsfield"

text \<open>The empty object \<^verbatim>\<open>{}\<close> that stands in for an absent agent output.\<close>

definition empty_obj :: agent_out where
  "empty_obj =
     \<lparr>invasiveness_score = Absent, recovery_time_days = Absent,
      medication_burden_score = Absent, lifestyle_impact = Absent, disease_stability = Absent,
      complication_probability = Absent, readmission_risk = Absent, severity_score = Absent,
      safety_status = Absent, identified_contraindications = Absent, recommendation = Absent,
      insights = Absent\<rparr>"

record comparison_side =
  overall_safety_score :: "real jsfield"
  effectiveness_score :: "real jsfield"
  patient_burden_score :: "real jsfield"
  cost_benefit_ratio :: "string jsfield"
  summary :: "string jsfield"

text \<open>
  An object with the two treatment sides, as an agent's entry and the comparison have. For
  a field that holds an object, \<open>None\<close> is the field absent or \<^verbatim>\<open>null\<close>: the source treats
  the two alike.
\<close>

record 'a sides =
  treatment_a :: "'a option"
  treatment_b :: "'a option"

record agents_obj =
  surgical_agent :: "agent_out sides option"
  chronic_care_agent :: "agent_out sides option"
  risk_agent :: "agent_out sides option"
  safety_agent :: "agent_out sides option"

record payload =
  agents :: "agents_obj option"
  comparison :: "comparison_side sides option"
  final_notes :: "string jsfield"

section \<open>The scorers\<close>

subsection \<open>calculateConfidence\<close>

definition calculateConfidence :: "agent_out \<Rightarrow> agent_out \<Rightarrow> comparison_side \<Rightarrow> jsval" where
  "calculateConfidence safety rsk cmp =
     (let confidence = 50;
          safetyScore = num_or (severity_score safety) 5;
          confidence = confidence + (10 - safetyScore) * 5;
          overallSafety = num_or (overall_safety_score cmp) 5;
          confidence = confidence + (overallSafety - 5) * 4;
          complicationProb = num_or (complication_probability rsk) 0.15;
          confidence = confidence - complicationProb * 100;
          confidence =
            (if str_and (recommendation safety) (\<lambda>r. str_includes (toLowerCase r) ''recommend'')
             then confidence + 10
             else if str_and (recommendation safety)
                       (\<lambda>r. str_includes (toLowerCase r) ''not recommend'')
             then confidence - 10
             else confidence)
      in Math_max (Num 0) (Math_min (Num 100) (Math_round (Num confidence))))"

subsection \<open>calculateQualityOfLife\<close>

definition lifestyleImpact :: "(string \<times> real) list" where
  "lifestyleImpact =
     [(''minimal'', 8), (''moderate'', 0), (''significant'', - 8), (''severe'', - 15)]"

definition stabilityBonus :: "(string \<times> real) list" where
  "stabilityBonus = [(''excellent'', 10), (''good'', 5), (''fair'', 0), (''poor'', - 10)]"

definition calculateQualityOfLife :: "agent_out \<Rightarrow> agent_out \<Rightarrow> comparison_side \<Rightarrow> jsval" where
  "calculateQualityOfLife surgical chronic cmp =
     (let qol = Num (num_or (effectiveness_score cmp) 7.5 * 10);
          invasiveness = num_or (invasiveness_score surgical) 5;
          qol = js_sub qol (Num (invasiveness * 1.2));
          medicationBurden = num_or (medication_burden_score chronic) 5;
          qol = js_sub qol (Num (medicationBurden * 1.0));
          lifestyleAdjustment =
            slot_num_or (js_get lifestyleImpact (key_of (lifestyle_impact chronic))) 0;
          qol = js_add qol lifestyleAdjustment;
          stabilityAdjustment =
            slot_num_or (js_get stabilityBonus (key_of (disease_stability chronic))) 0;
          qol = js_add qol stabilityAdjustment;
          recoveryDays = num_or (recovery_time_days surgical) 30;
          qol =
            (if recoveryDays > 60 then js_sub qol (Num 8)
             else if recoveryDays > 30 then js_sub qol (Num 4)
             else qol)
      in Math_max (Num 40) (Math_min (Num 100) (Math_round qol)))"

subsection \<open>mapReadmissionRisk\<close>

definition mapping :: "(string \<times> string) list" where
  "mapping =
     [(''low'', ''Low''), (''moderate'', ''Medium''), (''high'', ''High''),
      (''very-high'', ''High'')]"

text \<open>The result \<open>None\<close> is the source's \<^verbatim>\<open>null\<close>.\<close>

definition mapReadmissionRisk :: "string jsfield \<Rightarrow> jslabel option" where
  "mapReadmissionRisk riskLevel =
     (case riskLevel of
        Val r \<Rightarrow>
          if r = [] then None
          else Some (slot_str_or (js_get mapping (toLowerCase r)) r)
      | _ \<Rightarrow> None)"

text \<open>\<^verbatim>\<open>mapReadmissionRisk(..) || fallback\<close>, as the outcome assembly applies it.\<close>

definition label_or :: "jslabel option \<Rightarrow> string \<Rightarrow> jslabel" where
  "label_or x d =
     (case x of
        None \<Rightarrow> Str d
      | Some (Str s) \<Rightarrow> if s = [] then Str d else Str s
      | Some MemberLabel \<Rightarrow> MemberLabel)"

subsection \<open>calculateUncertainty\<close>

definition calculateUncertainty :: "agent_out \<Rightarrow> agent_out \<Rightarrow> string" where
  "calculateUncertainty rsk safety =
     (let uncertaintyScore =
            (if safety_status safety = Val ''safe'' then 1
             else if safety_status safety = Val ''caution'' then 2
             else (3 :: int));
          complicationProb = num_or (complication_probability rsk) 0.15;
          uncertaintyScore =
            (if complicationProb > 0.25 then uncertaintyScore + 1
             else if complicationProb < 0.10 then uncertaintyScore - 1
             else uncertaintyScore);
          readmissionRisk = toLowerCase (str_or (readmission_risk rsk) []);
          uncertaintyScore =
            (if readmissionRisk = ''high'' \<or> readmissionRisk = ''very-high''
             then uncertaintyScore + 1
             else if readmissionRisk = ''low'' then uncertaintyScore - 1
             else uncertaintyScore);
          uncertaintyScore = max 1 (min 3 uncertaintyScore)
      in if uncertaintyScore = 1 then ''Low''
         else if uncertaintyScore = 2 then ''Medium''
         else ''High'')"

subsection \<open>generateTimelineData\<close>

record timeline_point =
  month :: nat
  score :: jsval
  risk :: jsval
  event :: "string option"

definition stabilityFactors :: "(string \<times> real) list" where
  "stabilityFactors = [(''excellent'', 1.5), (''good'', 1.0), (''fair'', 0.5), (''poor'', 0.0)]"

definition eventMarkers :: "(nat \<times> string) list" where
  "eventMarkers =
     [(3, ''Initial assessment''), (6, ''Recovery checkpoint''), (12, ''Mid-term evaluation''),
      (18, ''Long-term outcome'')]"

text \<open>
  The body of the loop at month \<open>i\<close>. The division is reached only when
  \<open>i < recoveryMonths\<close>, where \<open>recoveryMonths\<close> is positive.
\<close>

definition timeline_entry ::
  "int \<Rightarrow> jsval \<Rightarrow> jsval \<Rightarrow> real \<Rightarrow> real \<Rightarrow> nat \<Rightarrow> timeline_point" where
  "timeline_entry recoveryMonths initialQol stabilityFactor complicationProb invasiveness i =
     (let score =
            (if int i < recoveryMonths
             then js_mul initialQol (Num (0.6 + (real i / real_of_int recoveryMonths) * 0.4))
             else (let monthsPastRecovery = int i - recoveryMonths
                   in js_add initialQol
                        (js_mul stabilityFactor (Num (real_of_int monthsPastRecovery)))));
          baseRisk = complicationProb;
          timeRisk = real i * (invasiveness * 0.5);
          risk_value = Math_min (Num 90) (Num (baseRisk + timeRisk))
      in \<lparr>month = i,
          score = Math_max (Num 40) (Math_min (Num 100) (Math_round score)),
          risk = Math_max (Num 10) (Math_round risk_value),
          event = map_of eventMarkers i\<rparr>)"

text \<open>\<^verbatim>\<open>for (let i = 0; i <= months; i += 3) timeline.push(..)\<close>\<close>

function timeline_loop ::
  "(nat \<Rightarrow> timeline_point) \<Rightarrow> nat \<Rightarrow> nat \<Rightarrow> timeline_point list \<Rightarrow> timeline_point list" where
  "timeline_loop body months i timeline =
     (if i \<le> months then timeline_loop body months (i + 3) (timeline @ [body i])
      else timeline)"
  by pat_completeness auto
termination
  by (relation "measure (\<lambda>(body, months, i, timeline). Suc months - i)") auto

definition generateTimelineData ::
  "agent_out \<Rightarrow> agent_out \<Rightarrow> agent_out \<Rightarrow> comparison_side \<Rightarrow> timeline_point list" where
  "generateTimelineData surgical chronic rsk cmp =
     (let months = 18;
          recoveryDays = num_or (recovery_time_days surgical) 30;
          invasiveness = num_or (invasiveness_score surgical) 5;
          diseaseStability = str_or (disease_stability chronic) ''fair'';
          complicationProb = num_or (complication_probability rsk) 0.25 * 100;
          initialQol = js_mul (to_number (effectiveness_score cmp)) (Num 10);
          stabilityFactor = slot_num_or (js_get stabilityFactors diseaseStability) 0.5;
          recoveryMonths = \<lceil>recoveryDays / 30\<rceil>
      in timeline_loop
           (timeline_entry recoveryMonths initialQol stabilityFactor complicationProb invasiveness)
           months 0 [])"

subsection \<open>calculateRiskScore\<close>

definition readmissionMap :: "(string \<times> real) list" where
  "readmissionMap = [(''low'', 25), (''moderate'', 50), (''high'', 75), (''very-high'', 90)]"

definition calculateRiskScore :: "agent_out option \<Rightarrow> string \<Rightarrow> jsval" where
  "calculateRiskScore agentData riskType =
     (case agentData of
        None \<Rightarrow> Num 50
      | Some d \<Rightarrow>
          if riskType = ''readmission''
          then slot_num_or
                 (js_get readmissionMap (key_of (opt_lower (readmission_risk d)))) 50
          else if riskType = ''complications''
          then Math_round (Num (num_or (complication_probability d) 0.5 * 100))
          else Num 50)"

subsection \<open>extractReasoningPoints and combineInsights\<close>

text \<open>
  \<^verbatim>\<open>line.replace(/^[-\u2022*]\s*/, '')\<close>: a leading hyphen or asterisk goes, with the white space
  after it. The bullet of the pattern is the code unit 8226, which no \<open>char\<close> is.
\<close>

definition strip_bullet :: "string \<Rightarrow> string" where
  "strip_bullet s =
     (case s of
        [] \<Rightarrow> []
      | c # cs \<Rightarrow> if c = CHR ''-'' \<or> c = CHR ''*'' then dropWhile is_space cs else s)"

definition extractReasoningPoints :: "string jsfield \<Rightarrow> string list" where
  "extractReasoningPoints finalNotes =
     (case finalNotes of
        Val notes \<Rightarrow>
          if notes = [] then []
          else (let lines =
                      filter
                        (\<lambda>line. trim line \<noteq> [] \<and> \<not> str_includes line ''===='' \<and>
                           \<not> str_includes line ''CLINICAL'' \<and> \<not> str_includes line ''WARNING'' \<and>
                           length line > 20)
                        (split_lines notes)
                in filter (\<lambda>line. length line > 0)
                     (map (\<lambda>line. trim (strip_bullet line)) (take 3 lines)))
      | _ \<Rightarrow> [])"

definition combineInsights :: "string jsfield \<Rightarrow> string jsfield \<Rightarrow> string \<Rightarrow> string" where
  "combineInsights insightA insightB fallback =
     (if str_and insightA (\<lambda>a. str_and insightB (\<lambda>b. True))
      then ''Treatment A: '' @ str_or insightA [] @ [CHR 0x0A, CHR 0x0A] @ ''Treatment B: '' @
           str_or insightB []
      else str_or insightA (str_or insightB (fallback @ '' pending'')))"

section \<open>transformBackendResponse\<close>

text \<open>
  The output model. A field whose name the payload already uses carries a prefix here:
  \<open>outcome_readmission_risk\<close> is the \<^verbatim>\<open>readmission_risk\<close> of an outcome, \<open>model_treatment_a\<close>
  and \<open>model_treatment_b\<close> are the two display labels, and \<open>explanation_agents\<close> with its
  three insights is \<^verbatim>\<open>explanation.agents\<close>.
\<close>

record outcome =
  quality_of_life :: jsval
  outcome_readmission_risk :: jslabel
  confidence :: jsval
  uncertainty :: string

record risk_pair =
  treatmentA :: jsval
  treatmentB :: jsval

record risk_table =
  readmission :: risk_pair
  complications :: risk_pair
  deterioration :: risk_pair

record risk_increase =
  category :: string
  change :: jsval

record delay_projection =
  risk_increases :: "risk_increase list"
  qol_immediate :: jsval
  qol_1month :: jsval
  qol_3months :: jsval

record agent_insights =
  surgical_insight :: string
  chronic_care_insight :: string
  risk_insight :: string

record explanation_obj =
  reasoning :: "string list"
  explanation_agents :: agent_insights

record comparison_model =
  model_treatment_a :: string
  model_treatment_b :: string
  outcome_a :: outcome
  outcome_b :: outcome
  timeline_a :: "timeline_point list"
  timeline_b :: "timeline_point list"
  risks :: risk_table
  delay_impact :: delay_projection
  explanation :: explanation_obj

text \<open>
  The source has one \<^verbatim>\<open>throw\<close>, for a payload without \<^verbatim>\<open>agents\<close> or \<^verbatim>\<open>comparison\<close>. Reading a
  property of an absent \<^verbatim>\<open>comparison.treatment_a\<close> or \<^verbatim>\<open>comparison.treatment_b\<close> raises the
  runtime's \<^verbatim>\<open>TypeError\<close>.
\<close>

datatype error = InvalidPayload | TypeError

text \<open>\<^verbatim>\<open>agents.x?.treatment_a || {}\<close> and \<^verbatim>\<open>agents.x?.treatment_b || {}\<close>\<close>

definition side_a :: "agent_out sides option \<Rightarrow> agent_out" where
  "side_a entry = (case Option.bind entry treatment_a of None \<Rightarrow> empty_obj | Some obj \<Rightarrow> obj)"

definition side_b :: "agent_out sides option \<Rightarrow> agent_out" where
  "side_b entry = (case Option.bind entry treatment_b of None \<Rightarrow> empty_obj | Some obj \<Rightarrow> obj)"

text \<open>\<^verbatim>\<open>agents.x?.treatment_a?.insights\<close> and \<^verbatim>\<open>agents.x?.treatment_b?.insights\<close>\<close>

definition insights_a :: "agent_out sides option \<Rightarrow> string jsfield" where
  "insights_a entry =
     (case Option.bind entry treatment_a of None \<Rightarrow> Absent | Some obj \<Rightarrow> insights obj)"

definition insights_b :: "agent_out sides option \<Rightarrow> string jsfield" where
  "insights_b entry =
     (case Option.bind entry treatment_b of None \<Rightarrow> Absent | Some obj \<Rightarrow> insights obj)"

definition make_outcome ::
  "agent_out \<Rightarrow> agent_out \<Rightarrow> agent_out \<Rightarrow> agent_out \<Rightarrow> comparison_side \<Rightarrow> outcome" where
  "make_outcome surgical chronic rsk safety cmp =
     \<lparr>quality_of_life = calculateQualityOfLife surgical chronic cmp,
      outcome_readmission_risk =
        label_or (mapReadmissionRisk (readmission_risk rsk))
          (if num_ge (overall_safety_score cmp) 7 then ''Low''
           else if num_ge (overall_safety_score cmp) 4 then ''Medium''
           else ''High''),
      confidence = calculateConfidence safety rsk cmp,
      uncertainty = calculateUncertainty rsk safety\<rparr>"

text \<open>The optional safety-warning entry of the reasoning list.\<close>

definition safety_warning :: "string \<Rightarrow> agent_out \<Rightarrow> string list" where
  "safety_warning title safety =
     (case identified_contraindications safety of
        Val cs \<Rightarrow> if length cs > 0 then [title @ join (take 2 cs) ''; ''] else []
      | _ \<Rightarrow> [])"

definition summary_line :: "string \<Rightarrow> comparison_side \<Rightarrow> string" where
  "summary_line name cmp =
     name @ '' ('' @ template (cost_benefit_ratio cmp) @ '' cost-benefit): '' @
     template (summary cmp)"

text \<open>
  The body of \<^verbatim>\<open>transformBackendResponse\<close> after the structural check, once both comparison
  sides have been read.
\<close>

definition build_model ::
  "agents_obj \<Rightarrow> comparison_side \<Rightarrow> comparison_side \<Rightarrow> string jsfield \<Rightarrow> comparison_model" where
  "build_model ag cmp_a cmp_b notes =
     (let agentInsights =
            \<lparr>surgical_insight =
               combineInsights (insights_a (surgical_agent ag)) (insights_b (surgical_agent ag))
                 ''Surgical analysis'',
             chronic_care_insight =
               combineInsights (insights_a (chronic_care_agent ag))
                 (insights_b (chronic_care_agent ag)) ''Chronic care analysis'',
             risk_insight =
               combineInsights (insights_a (risk_agent ag)) (insights_b (risk_agent ag))
                 ''Risk assessment''\<rparr>;
          surgicalA = side_a (surgical_agent ag);
          chronicA = side_a (chronic_care_agent ag);
          riskA = side_a (risk_agent ag);
          safetyA = side_a (safety_agent ag);
          outcome_a = make_outcome surgicalA chronicA riskA safetyA cmp_a;
          surgicalB = side_b (surgical_agent ag);
          chronicB = side_b (chronic_care_agent ag);
          riskB = side_b (risk_agent ag);
          safetyB = side_b (safety_agent ag);
          outcome_b = make_outcome surgicalB chronicB riskB safetyB cmp_b;
          timeline_a = generateTimelineData surgicalA chronicA riskA cmp_a;
          timeline_b = generateTimelineData surgicalB chronicB riskB cmp_b;
          risks =
            \<lparr>readmission =
               \<lparr>treatmentA = calculateRiskScore (Some riskA) ''readmission'',
                treatmentB = calculateRiskScore (Some riskB) ''readmission''\<rparr>,
             complications =
               \<lparr>treatmentA = calculateRiskScore (Some riskA) ''complications'',
                treatmentB = calculateRiskScore (Some riskB) ''complications''\<rparr>,
             deterioration =
               \<lparr>treatmentA =
                  Math_round (js_mul (to_number (patient_burden_score cmp_a)) (Num 10)),
                treatmentB =
                  Math_round (js_mul (to_number (patient_burden_score cmp_b)) (Num 10))\<rparr>\<rparr>;
          delay_impact =
            \<lparr>risk_increases =
               [\<lparr>category = ''Readmission'',
                 change =
                   Math_abs (js_sub (treatmentA (readmission risks))
                     (treatmentB (readmission risks)))\<rparr>,
                \<lparr>category = ''Complications'',
                 change =
                   Math_abs (js_sub (treatmentA (complications risks))
                     (treatmentB (complications risks)))\<rparr>,
                \<lparr>category = ''Deterioration'',
                 change =
                   Math_abs (js_sub (treatmentA (deterioration risks))
                     (treatmentB (deterioration risks)))\<rparr>],
             qol_immediate = quality_of_life outcome_a,
             qol_1month = Math_max (Num 50) (js_sub (quality_of_life outcome_a) (Num 10)),
             qol_3months = Math_max (Num 40) (js_sub (quality_of_life outcome_a) (Num 20))\<rparr>;
          reasoning =
            take 5
              (filter (\<lambda>r. r \<noteq> [] \<and> length r > 0)
                 ([summary_line ''Treatment A'' cmp_a, summary_line ''Treatment B'' cmp_b] @
                  safety_warning ''Treatment A Safety: '' safetyA @
                  safety_warning ''Treatment B Safety: '' safetyB @
                  extractReasoningPoints notes))
      in \<lparr>model_treatment_a = ''Treatment A'',
          model_treatment_b = ''Treatment B'',
          outcome_a = outcome_a,
          outcome_b = outcome_b,
          timeline_a = timeline_a,
          timeline_b = timeline_b,
          risks = risks,
          delay_impact = delay_impact,
          explanation = \<lparr>reasoning = reasoning, explanation_agents = agentInsights\<rparr>\<rparr>)"

text \<open>
  The entry point. \<open>None\<close> is a \<^verbatim>\<open>null\<close> or \<^verbatim>\<open>undefined\<close> payload; \<open>agents\<close> and
  \<open>comparison\<close> are \<open>None\<close> when absent or \<^verbatim>\<open>null\<close>. The first property read of a missing
  comparison side is in \<^verbatim>\<open>calculateQualityOfLife\<close>, for side A before side B.
\<close>

definition transformBackendResponse :: "payload option \<Rightarrow> error + comparison_model" where
  "transformBackendResponse backendData =
     (case backendData of
        None \<Rightarrow> Inl InvalidPayload
      | Some d \<Rightarrow>
          (case agents d of
             None \<Rightarrow> Inl InvalidPayload
           | Some ag \<Rightarrow>
               (case comparison d of
                  None \<Rightarrow> Inl InvalidPayload
                | Some cmp \<Rightarrow>
                    (case treatment_a cmp of
                       None \<Rightarrow> Inl TypeError
                     | Some cmp_a \<Rightarrow>
                         (case treatment_b cmp of
                            None \<Rightarrow> Inl TypeError
                          | Some cmp_b \<Rightarrow> Inr (build_model ag cmp_a cmp_b (final_notes d)))))))"

section \<open>The specification's wording\<close>

text \<open>
  The definitions of this section follow the words of the specification, not the source;
  the theorems compare them with the embedding above.
\<close>

text \<open>A default that applies to an absent or \<^verbatim>\<open>null\<close> field only (\<^verbatim>\<open>x ?? d\<close>).\<close>

definition absent_or :: "real jsfield \<Rightarrow> real \<Rightarrow> real" where
  "absent_or x d = (case x of Val v \<Rightarrow> v | _ \<Rightarrow> d)"


text \<open>
  The confidence scorer as the specification words it: each default applies to an absent
  field, and the negative phrase is looked for before the positive one.
\<close>

definition confidence_spec :: "agent_out \<Rightarrow> agent_out \<Rightarrow> comparison_side \<Rightarrow> jsval" where
  "confidence_spec safety rsk cmp =
     (let base = 50;
          step2 = base + (10 - absent_or (severity_score safety) 5) * 5;
          step3 = step2 + (absent_or (overall_safety_score cmp) 5 - 5) * 4;
          step4 = step3 - absent_or (complication_probability rsk) 0.15 * 100;
          txt = (case recommendation safety of Val r \<Rightarrow> toLowerCase r | _ \<Rightarrow> []);
          step5 =
            (if str_includes txt ''not recommend'' then step4 - 10
             else if str_includes txt ''recommend'' then step4 + 10
             else step4)
      in Math_max (Num 0) (Math_min (Num 100) (Math_round (Num step5))))"






text \<open>The fallback of the outcome assembly: a threshold on the overall safety score.\<close>

definition threshold_spec :: "real jsfield \<Rightarrow> string" where
  "threshold_spec safety_score =
     (case safety_score of
        Val v \<Rightarrow> if v \<ge> 7 then ''Low'' else if v \<ge> 4 then ''Medium'' else ''High''
      | _ \<Rightarrow> ''High'')"

text \<open>The direct mapping of a readmission level; an unrecognised level passes unchanged.\<close>

definition direct_mapping :: "string \<Rightarrow> string" where
  "direct_mapping r =
     (let level = toLowerCase r
      in if level = ''low'' then ''Low'' else if level = ''moderate'' then ''Medium''
         else if level = ''high'' then ''High'' else if level = ''very-high'' then ''High''
         else r)"

text \<open>
  The output \<^verbatim>\<open>readmission_risk\<close> as the specification words it: the direct mapping of a
  level that is present, the threshold for one that is absent or \<^verbatim>\<open>null\<close>.
\<close>

definition readmission_risk_spec :: "string jsfield \<Rightarrow> real jsfield \<Rightarrow> jslabel" where
  "readmission_risk_spec level safety_score =
     (case level of
        Val r \<Rightarrow> Str (direct_mapping r)
      | _ \<Rightarrow> Str (threshold_spec safety_score))"

section \<open>Ranges and domains\<close>





text \<open>
  What the output \<^verbatim>\<open>readmission_risk\<close> of one side is, from the agent's level and the
  comparison side: the threshold for a level that is absent, \<^verbatim>\<open>null\<close> or empty, the direct
  mapping for any other level whose lower-cased text names no inherited member.
\<close>

definition readmission_label_rule :: "string jsfield \<Rightarrow> comparison_side \<Rightarrow> jslabel \<Rightarrow> bool" where
  "readmission_label_rule level cmp out =
     (case level of
        Val r \<Rightarrow>
          if r = [] then out = Str (threshold_spec (overall_safety_score cmp))
          else toLowerCase r \<notin> set Object_prototype \<longrightarrow> out = Str (direct_mapping r)
      | _ \<Rightarrow> out = Str (threshold_spec (overall_safety_score cmp)))"







section \<open>Sample payloads\<close>

text \<open>A comparison side and an \<^verbatim>\<open>agents\<close> object without any field.\<close>

definition empty_side :: comparison_side where
  "empty_side =
     \<lparr>overall_safety_score = Absent, effectiveness_score = Absent,
      patient_burden_score = Absent, cost_benefit_ratio = Absent, summary = Absent\<rparr>"

definition no_agents :: agents_obj where
  "no_agents =
     \<lparr>surgical_agent = None, chronic_care_agent = None, risk_agent = None, safety_agent = None\<rparr>"

text \<open>
  A payload in which three agents report on treatment A only, and the comparison holds
  both sides in full.
\<close>

definition sample_agents :: agents_obj where
  "sample_agents =
     \<lparr>surgical_agent =
        Some \<lparr>treatment_a =
                Some (empty_obj\<lparr>invasiveness_score := Val 4, recovery_time_days := Val 45\<rparr>),
              treatment_b = None\<rparr>,
      chronic_care_agent =
        Some \<lparr>treatment_a =
                Some (empty_obj\<lparr>lifestyle_impact := Val ''minimal'',
                                disease_stability := Val ''good''\<rparr>),
              treatment_b = None\<rparr>,
      risk_agent =
        Some \<lparr>treatment_a =
                Some (empty_obj\<lparr>complication_probability := Val 0.25,
                                readmission_risk := Val ''High''\<rparr>),
              treatment_b = None\<rparr>,
      safety_agent = None\<rparr>"

definition sample_a :: comparison_side where
  "sample_a =
     \<lparr>overall_safety_score = Val 8, effectiveness_score = Val 8,
      patient_burden_score = Val 4, cost_benefit_ratio = Val ''favorable'',
      summary = Val ''Stent''\<rparr>"

definition sample_b :: comparison_side where
  "sample_b =
     \<lparr>overall_safety_score = Val 5, effectiveness_score = Val 6,
      patient_burden_score = Val 7, cost_benefit_ratio = Val ''neutral'',
      summary = Val ''Medication''\<rparr>"

definition sample_comparison :: "comparison_side sides" where
  "sample_comparison = \<lparr>treatment_a = Some sample_a, treatment_b = Some sample_b\<rparr>"

definition sample_payload :: payload where
  "sample_payload =
     \<lparr>agents = Some sample_agents, comparison = Some sample_comparison, final_notes = Absent\<rparr>"




section \<open>Rounding, clamping and lookups\<close>





text \<open>A key that names no inherited member reads the table, or nothing.\<close>

lemma js_get_plain:
  "k \<notin> set Object_prototype \<Longrightarrow>
   js_get t k = (case map_of t k of Some v \<Rightarrow> Own v | None \<Rightarrow> Missing)"
  by (simp add: js_get_def)


section \<open>The confidence scorer\<close>

lemma str_includes_iff: "str_includes s sub \<longleftrightarrow> (\<exists>ps ss. s = ps @ sub @ ss)"
proof
  assume "str_includes s sub"
  then show "\<exists>ps ss. s = ps @ sub @ ss"
  proof (induction s)
    case Nil
    then show ?case by simp
  next
    case (Cons c cs)
    from Cons.prems have "take (length sub) (c # cs) = sub \<or> str_includes cs sub" by simp
    then show ?case
    proof
      assume "take (length sub) (c # cs) = sub"
      then have "c # cs = [] @ sub @ drop (length sub) (c # cs)"
        by (metis append_Nil append_take_drop_id)
      then show ?thesis by blast
    next
      assume "str_includes cs sub"
      then obtain ps ss where "cs = ps @ sub @ ss" using Cons.IH by blast
      then have "c # cs = (c # ps) @ sub @ ss" by simp
      then show ?thesis by blast
    qed
  qed
next
  assume "\<exists>ps ss. s = ps @ sub @ ss"
  then obtain ps ss where s: "s = ps @ sub @ ss" by blast
  show "str_includes s sub" unfolding s
  proof (induction ps)
    case Nil
    show ?case
    proof (cases "sub @ ss")
      case Nil
      then show ?thesis by simp
    next
      case (Cons a list)
      have "take (length sub) (sub @ ss) = sub" by simp
      then have "take (length sub) (a # list) = sub" using Cons by simp
      then show ?thesis using Cons by simp
    qed
  next
    case (Cons p ps)
    then show ?case by simp
  qed
qed

text \<open>Every text that holds the negative phrase holds the positive one.\<close>

lemma not_recommend_includes_recommend:
  "str_includes s ''not recommend'' \<Longrightarrow> str_includes s ''recommend''"
proof -
  assume "str_includes s ''not recommend''"
  then obtain ps ss where "s = ps @ ''not recommend'' @ ss"
    using str_includes_iff by blast
  then have "s = (ps @ ''not '') @ ''recommend'' @ ss" by simp
  then show ?thesis using str_includes_iff by blast
qed

lemma negative_implies_positive:
  "str_and r (\<lambda>r. str_includes (toLowerCase r) ''not recommend'') \<Longrightarrow>
   str_and r (\<lambda>r. str_includes (toLowerCase r) ''recommend'')"
  by (cases r) (simp_all add: str_and_def not_recommend_includes_recommend)

text \<open>
  So the second branch of the source's \<^verbatim>\<open>if\<close> is never taken: the scorer adds 10 for any
  text with \<^verbatim>\<open>recommend\<close> in it and never subtracts.
\<close>

lemma negative_branch_unreachable:
  "calculateConfidence safety rsk cmp =
     (let confidence =
            50 + (10 - num_or (severity_score safety) 5) * 5 +
            (num_or (overall_safety_score cmp) 5 - 5) * 4 -
            num_or (complication_probability rsk) 0.15 * 100;
          confidence =
            (if str_and (recommendation safety) (\<lambda>r. str_includes (toLowerCase r) ''recommend'')
             then confidence + 10 else confidence)
      in Math_max (Num 0) (Math_min (Num 100) (Math_round (Num confidence))))"
proof (cases "str_and (recommendation safety) (\<lambda>r. str_includes (toLowerCase r) ''recommend'')")
  case True
  then show ?thesis unfolding calculateConfidence_def Let_def by simp
next
  case False
  then have "\<not> str_and (recommendation safety)
                 (\<lambda>r. str_includes (toLowerCase r) ''not recommend'')"
    using negative_implies_positive by blast
  with False show ?thesis unfolding calculateConfidence_def Let_def by simp
qed


text \<open>The worked example of the specification: severity 3, probability 0.1, safety 8.\<close>

lemma confidence_worked_example:
  "calculateConfidence
     (empty_obj\<lparr>severity_score := Val 3, recommendation := Val ''We recommend proceeding''\<rparr>)
     (empty_obj\<lparr>complication_probability := Val 0.1\<rparr>)
     (empty_side\<lparr>overall_safety_score := Val 8\<rparr>) = Num 97"
  by code_simp

text \<open>
  Claim C3. A recommendation text that contains \<^verbatim>\<open>not recommend\<close> should cost 10 points of
  confidence. With severity 5, overall safety 5, complication probability 0.25 and the text
  \<^verbatim>\<open>Not recommended\<close>, the specification's scorer gives 50 + 25 + 0 - 25 - 10 = 40; the source
  tests for \<^verbatim>\<open>recommend\<close> first, adds 10 and returns 60.
\<close>

theorem calculateConfidence_not_recommend:
  "calculateConfidence
     (empty_obj\<lparr>severity_score := Val 5, recommendation := Val ''Not recommended''\<rparr>)
     (empty_obj\<lparr>complication_probability := Val 0.25\<rparr>)
     (empty_side\<lparr>overall_safety_score := Val 5\<rparr>) = Num 60 \<and>
   confidence_spec
     (empty_obj\<lparr>severity_score := Val 5, recommendation := Val ''Not recommended''\<rparr>)
     (empty_obj\<lparr>complication_probability := Val 0.25\<rparr>)
     (empty_side\<lparr>overall_safety_score := Val 5\<rparr>) = Num 40"
  by code_simp

section \<open>The uncertainty classifier\<close>



section \<open>The quality-of-life scorer\<close>









text \<open>
  Claim C6. The score should lie between 40 and 100 on any input whatsoever. For the
  lifestyle impact \<^verbatim>\<open>constructor\<close> the lookup \<^verbatim>\<open>lifestyleImpact[..]\<close> finds the function that
  every object inherits, \<^verbatim>\<open>qol += ..\<close> turns the score into a string, and the clamp returns
  \<^verbatim>\<open>NaN\<close>.
\<close>

theorem calculateQualityOfLife_inherited_key:
  "calculateQualityOfLife empty_obj (empty_obj\<lparr>lifestyle_impact := Val ''constructor''\<rparr>)
     (empty_side\<lparr>effectiveness_score := Val 8\<rparr>) = NaN"
  by code_simp

section \<open>The timeline generator\<close>


lemma timeline_entry_month [simp]: "month (timeline_entry rm q f cp iv i) = i"
  by (simp add: timeline_entry_def Let_def)

lemma timeline_entry_event [simp]:
  "event (timeline_entry rm q f cp iv i) = map_of eventMarkers i"
  by (simp add: timeline_entry_def Let_def)












text \<open>
  The stability key \<^verbatim>\<open>constructor\<close> reads an inherited function as the stability factor:
  the score after the recovery phase is \<^verbatim>\<open>NaN\<close>.
\<close>

lemma timeline_inherited_key:
  "map score
     (generateTimelineData empty_obj (empty_obj\<lparr>disease_stability := Val ''constructor''\<rparr>)
        empty_obj (empty_side\<lparr>effectiveness_score := Val 8\<rparr>)) =
     [Num 48, NaN, NaN, NaN, NaN, NaN, NaN]"
  by code_simp

section \<open>The risk scorer\<close>










text \<open>A readmission level that reads an inherited member is no number at all.\<close>

lemma risk_score_inherited_key:
  "calculateRiskScore (Some (empty_obj\<lparr>readmission_risk := Val ''Constructor''\<rparr>))
     ''readmission'' = Member"
  by code_simp

section \<open>The readmission label\<close>

lemma threshold_eq:
  "(if num_ge s 7 then ''Low'' else if num_ge s 4 then ''Medium'' else ''High'') =
     threshold_spec s"
  by (cases s) (simp_all add: num_ge_def threshold_spec_def)

lemma direct_mapping_nonempty: "r \<noteq> [] \<Longrightarrow> direct_mapping r \<noteq> []"
  by (simp add: direct_mapping_def Let_def)

lemma mapReadmissionRisk_direct:
  assumes "r \<noteq> []" and "toLowerCase r \<notin> set Object_prototype"
  shows "mapReadmissionRisk (Val r) = Some (Str (direct_mapping r))"
  using assms
  by (simp add: mapReadmissionRisk_def js_get_plain mapping_def slot_str_or_def
      direct_mapping_def Let_def)

lemma outcome_readmission_fallback:
  "mapReadmissionRisk (readmission_risk rsk) = None \<Longrightarrow>
   outcome_readmission_risk (make_outcome surgical chronic rsk safety cmp) =
     Str (threshold_spec (overall_safety_score cmp))"
  by (simp add: make_outcome_def label_or_def threshold_eq)

lemma outcome_readmission_direct:
  assumes "readmission_risk rsk = Val r" and "r \<noteq> []"
    and "toLowerCase r \<notin> set Object_prototype"
  shows "outcome_readmission_risk (make_outcome surgical chronic rsk safety cmp) =
           Str (direct_mapping r)"
  using direct_mapping_nonempty [OF assms(2)]
  by (simp add: make_outcome_def assms(1) mapReadmissionRisk_direct [OF assms(2,3)] label_or_def)

lemma label_rule:
  "readmission_label_rule (readmission_risk rsk) cmp
     (outcome_readmission_risk (make_outcome surgical chronic rsk safety cmp))"
proof (cases "readmission_risk rsk")
  case Absent
  then show ?thesis
    using outcome_readmission_fallback [of rsk surgical chronic safety cmp]
    by (simp add: readmission_label_rule_def mapReadmissionRisk_def)
next
  case Null
  then show ?thesis
    using outcome_readmission_fallback [of rsk surgical chronic safety cmp]
    by (simp add: readmission_label_rule_def mapReadmissionRisk_def)
next
  case (Val r)
  show ?thesis
  proof (cases "r = []")
    case True
    then show ?thesis
      using Val outcome_readmission_fallback [of rsk surgical chronic safety cmp]
      by (simp add: readmission_label_rule_def mapReadmissionRisk_def)
  next
    case False
    then show ?thesis
      using Val outcome_readmission_direct [OF Val False, of surgical chronic safety cmp]
      by (simp add: readmission_label_rule_def)
  qed
qed

text \<open>A level that reads an inherited member is mapped to that member, not to a string.\<close>

lemma label_inherited_key: "mapReadmissionRisk (Val ''Constructor'') = Some MemberLabel"
  by code_simp

section \<open>The entry point\<close>

lemma transform_accepts:
  "agents d = Some ag \<Longrightarrow> comparison d = Some cmp \<Longrightarrow> treatment_a cmp = Some ca \<Longrightarrow>
   treatment_b cmp = Some cb \<Longrightarrow>
   transformBackendResponse (Some d) = Inr (build_model ag ca cb (final_notes d))"
  by (simp add: transformBackendResponse_def)

lemma transform_Inr:
  "transformBackendResponse x = Inr m \<Longrightarrow>
   \<exists>d ag cmp ca cb. x = Some d \<and> agents d = Some ag \<and> comparison d = Some cmp \<and>
     treatment_a cmp = Some ca \<and> treatment_b cmp = Some cb \<and>
     m = build_model ag ca cb (final_notes d)"
  by (auto simp: transformBackendResponse_def split: option.splits)

lemma build_outcome_a:
  "outcome_a (build_model ag ca cb final) =
     make_outcome (side_a (surgical_agent ag)) (side_a (chronic_care_agent ag))
       (side_a (risk_agent ag)) (side_a (safety_agent ag)) ca"
  by (simp add: build_model_def Let_def)

lemma build_outcome_b:
  "outcome_b (build_model ag ca cb final) =
     make_outcome (side_b (surgical_agent ag)) (side_b (chronic_care_agent ag))
       (side_b (risk_agent ag)) (side_b (safety_agent ag)) cb"
  by (simp add: build_model_def Let_def)




lemma build_delay:
  "qol_immediate (delay_impact (build_model ag ca cb final)) =
     quality_of_life (outcome_a (build_model ag ca cb final))"
  "qol_1month (delay_impact (build_model ag ca cb final)) =
     Math_max (Num 50) (js_sub (quality_of_life (outcome_a (build_model ag ca cb final))) (Num 10))"
  "qol_3months (delay_impact (build_model ag ca cb final)) =
     Math_max (Num 40) (js_sub (quality_of_life (outcome_a (build_model ag ca cb final))) (Num 20))"
  by (simp_all add: build_model_def Let_def)

lemma build_reasoning:
  "reasoning (explanation (build_model ag ca cb final)) =
     take 5
       (filter (\<lambda>r. r \<noteq> [] \<and> length r > 0)
          ([summary_line ''Treatment A'' ca, summary_line ''Treatment B'' cb] @
           safety_warning ''Treatment A Safety: '' (side_a (safety_agent ag)) @
           safety_warning ''Treatment B Safety: '' (side_b (safety_agent ag)) @
           extractReasoningPoints final))"
  by (simp add: build_model_def Let_def)

lemma sample_hyps:
  "agents sample_payload = Some sample_agents"
  "comparison sample_payload = Some sample_comparison"
  "treatment_a sample_comparison = Some sample_a"
  "treatment_b sample_comparison = Some sample_b"
  by (simp_all add: sample_payload_def sample_comparison_def)

text \<open>
  Claim C2, amended. A \<^verbatim>\<open>null\<close> payload, a payload without \<^verbatim>\<open>agents\<close> and a payload without
  \<^verbatim>\<open>comparison\<close> each raise the one invalid-payload error and give no model; no other
  payload raises that error; and a payload that has \<^verbatim>\<open>agents\<close>, \<^verbatim>\<open>comparison\<close> and both
  comparison sides raises no error at all.
\<close>

theorem structural_check:
  "transformBackendResponse None = Inl InvalidPayload \<and>
   (agents d = None \<or> comparison d = None \<longrightarrow>
      transformBackendResponse (Some d) = Inl InvalidPayload) \<and>
   (transformBackendResponse (Some d) = Inl InvalidPayload \<longrightarrow>
      agents d = None \<or> comparison d = None) \<and>
   (agents d \<noteq> None \<and> comparison d = Some cmp \<and> treatment_a cmp \<noteq> None \<and>
    treatment_b cmp \<noteq> None \<longrightarrow> (\<exists>m. transformBackendResponse (Some d) = Inr m))"
  by (auto simp: transformBackendResponse_def split: option.splits)

text \<open>Instances: the sample without its agents, without its comparison, and as it is.\<close>

theorem structural_check_witness:
  "transformBackendResponse None = Inl InvalidPayload \<and>
   agents (sample_payload\<lparr>agents := None\<rparr>) = None \<and>
   transformBackendResponse (Some (sample_payload\<lparr>agents := None\<rparr>)) = Inl InvalidPayload \<and>
   comparison (sample_payload\<lparr>comparison := None\<rparr>) = None \<and>
   transformBackendResponse (Some (sample_payload\<lparr>comparison := None\<rparr>)) = Inl InvalidPayload \<and>
   agents sample_payload \<noteq> None \<and> comparison sample_payload = Some sample_comparison \<and>
   treatment_a sample_comparison \<noteq> None \<and> treatment_b sample_comparison \<noteq> None \<and>
   (\<exists>m. transformBackendResponse (Some sample_payload) = Inr m)"
  using structural_check [of "sample_payload\<lparr>agents := None\<rparr>"]
    structural_check [of "sample_payload\<lparr>comparison := None\<rparr>"]
    structural_check [of sample_payload sample_comparison]
  by (simp add: sample_payload_def sample_comparison_def)

text \<open>
  The structural check is not the only error: a payload whose \<^verbatim>\<open>comparison\<close> is an object
  without the two sides passes the check, and the first property read of the missing side
  raises a \<^verbatim>\<open>TypeError\<close>.
\<close>

theorem missing_side_raises_TypeError:
  "transformBackendResponse
     (Some \<lparr>agents = Some no_agents,
            comparison = Some \<lparr>treatment_a = None, treatment_b = None\<rparr>,
            final_notes = Absent\<rparr>) = Inl TypeError"
  by (simp add: transformBackendResponse_def)

section \<open>The delay projection\<close>

text \<open>
  Claim C4, amended. In every produced model whose \<^verbatim>\<open>qol_immediate\<close> is a number \<open>q\<close> (it is
  the quality of life of outcome A), \<^verbatim>\<open>qol_1month\<close> is the larger of 50 and \<open>q - 10\<close>,
  \<^verbatim>\<open>qol_3months\<close> is the larger of 40 and \<open>q - 20\<close>, and \<^verbatim>\<open>qol_1month\<close> is at least
  \<^verbatim>\<open>qol_3months\<close>; \<^verbatim>\<open>qol_immediate\<close> is at least \<^verbatim>\<open>qol_1month\<close> exactly when it is at
  least 50.
\<close>

theorem delay_decay:
  assumes "transformBackendResponse x = Inr m" and "qol_immediate (delay_impact m) = Num q"
  shows "quality_of_life (outcome_a m) = Num q \<and>
         qol_1month (delay_impact m) = Num (max 50 (q - 10)) \<and>
         qol_3months (delay_impact m) = Num (max 40 (q - 20)) \<and>
         max 40 (q - 20) \<le> max 50 (q - 10) \<and>
         (max 50 (q - 10) \<le> q \<longleftrightarrow> 50 \<le> q)"
proof -
  obtain ag ca cb final where m: "m = build_model ag ca cb final"
    using transform_Inr [OF assms(1)] by blast
  have q: "quality_of_life (outcome_a m) = Num q"
    using assms(2) unfolding m by (simp only: build_delay)
  have "qol_1month (delay_impact m) = Num (max 50 (q - 10))"
    using q unfolding m by (simp only: build_delay) simp
  moreover have "qol_3months (delay_impact m) = Num (max 40 (q - 20))"
    using q unfolding m by (simp only: build_delay) simp
  moreover have "max 40 (q - 20) \<le> max 50 (q - 10)" by (simp add: max_def)
  moreover have "max 50 (q - 10) \<le> q \<longleftrightarrow> 50 \<le> q" by (simp add: max_def)
  ultimately show ?thesis using q by blast
qed

text \<open>An instance: the sample payload, with 79, 69 and 59.\<close>

theorem delay_decay_witness:
  "transformBackendResponse (Some sample_payload) =
     Inr (build_model sample_agents sample_a sample_b Absent) \<and>
   qol_immediate (delay_impact (build_model sample_agents sample_a sample_b Absent)) = Num 79 \<and>
   qol_1month (delay_impact (build_model sample_agents sample_a sample_b Absent)) = Num 69 \<and>
   qol_3months (delay_impact (build_model sample_agents sample_a sample_b Absent)) = Num 59"
proof -
  have t: "transformBackendResponse (Some sample_payload) =
             Inr (build_model sample_agents sample_a sample_b Absent)"
    by (simp add: transformBackendResponse_def sample_payload_def sample_comparison_def)
  have q: "qol_immediate (delay_impact (build_model sample_agents sample_a sample_b Absent)) =
             Num 79"
    by code_simp
  show ?thesis using t q delay_decay [OF t q] by simp
qed

text \<open>
  The sequence is not monotone below 50: an effectiveness score of 1 gives the floor of 40
  at once and the floor of 50 after one month.
\<close>

theorem delay_not_monotone:
  "transformBackendResponse
     (Some \<lparr>agents = Some no_agents,
            comparison =
              Some \<lparr>treatment_a = Some (empty_side\<lparr>effectiveness_score := Val 1\<rparr>),
                    treatment_b = Some empty_side\<rparr>,
            final_notes = Absent\<rparr>) =
     Inr (build_model no_agents (empty_side\<lparr>effectiveness_score := Val 1\<rparr>) empty_side Absent) \<and>
   qol_immediate
     (delay_impact
        (build_model no_agents (empty_side\<lparr>effectiveness_score := Val 1\<rparr>) empty_side Absent)) =
     Num 40 \<and>
   qol_1month
     (delay_impact
        (build_model no_agents (empty_side\<lparr>effectiveness_score := Val 1\<rparr>) empty_side Absent)) =
     Num 50"
proof -
  have "transformBackendResponse
     (Some \<lparr>agents = Some no_agents,
            comparison =
              Some \<lparr>treatment_a = Some (empty_side\<lparr>effectiveness_score := Val 1\<rparr>),
                    treatment_b = Some empty_side\<rparr>,
            final_notes = Absent\<rparr>) =
     Inr (build_model no_agents (empty_side\<lparr>effectiveness_score := Val 1\<rparr>) empty_side Absent)"
    by (simp add: transformBackendResponse_def)
  moreover have "qol_immediate
     (delay_impact
        (build_model no_agents (empty_side\<lparr>effectiveness_score := Val 1\<rparr>) empty_side Absent)) =
     Num 40"
    by code_simp
  moreover have "qol_1month
     (delay_impact
        (build_model no_agents (empty_side\<lparr>effectiveness_score := Val 1\<rparr>) empty_side Absent)) =
     Num 50"
    by code_simp
  ultimately show ?thesis by blast
qed

section \<open>The risk table\<close>




section \<open>The readmission risk of the outcomes\<close>

text \<open>
  Claim C9, amended. For every payload that has \<^verbatim>\<open>agents\<close>, \<^verbatim>\<open>comparison\<close> and both
  comparison sides, and for each treatment: when the agent's \<^verbatim>\<open>readmission_risk\<close> is
  absent, \<^verbatim>\<open>null\<close> or the empty string, the output is the threshold on
  \<^verbatim>\<open>overall_safety_score\<close> (7 and above Low, 4 and above Medium, else High); when it is any
  other text whose lower-cased form
  names no member inherited from \<^verbatim>\<open>Object.prototype\<close>, the output is the direct mapping
  (low to Low, moderate to Medium, high and very-high to High, in any case, and any other
  text unchanged), whatever the safety score.
\<close>

theorem readmission_risk_precedence:
  assumes "agents d = Some ag" and "comparison d = Some cmp"
    and "treatment_a cmp = Some ca" and "treatment_b cmp = Some cb"
  shows "\<exists>m. transformBackendResponse (Some d) = Inr m \<and>
           readmission_label_rule (readmission_risk (side_a (risk_agent ag))) ca
             (outcome_readmission_risk (outcome_a m)) \<and>
           readmission_label_rule (readmission_risk (side_b (risk_agent ag))) cb
             (outcome_readmission_risk (outcome_b m))"
proof (intro exI conjI)
  show "transformBackendResponse (Some d) = Inr (build_model ag ca cb (final_notes d))"
    by (rule transform_accepts [OF assms])
  show "readmission_label_rule (readmission_risk (side_a (risk_agent ag))) ca
          (outcome_readmission_risk (outcome_a (build_model ag ca cb (final_notes d))))"
    by (simp only: build_outcome_a label_rule)
  show "readmission_label_rule (readmission_risk (side_b (risk_agent ag))) cb
          (outcome_readmission_risk (outcome_b (build_model ag ca cb (final_notes d))))"
    by (simp only: build_outcome_b label_rule)
qed

text \<open>
  An instance: in the sample the level of treatment A is \<^verbatim>\<open>High\<close>, mapped directly though
  the safety score of 8 would say Low; treatment B has no level and a safety score of 5.
\<close>

theorem readmission_risk_precedence_witness:
  "agents sample_payload = Some sample_agents \<and>
   comparison sample_payload = Some sample_comparison \<and>
   treatment_a sample_comparison = Some sample_a \<and>
   treatment_b sample_comparison = Some sample_b \<and>
   readmission_risk (side_a (risk_agent sample_agents)) = Val ''High'' \<and>
   toLowerCase ''High'' \<notin> set Object_prototype \<and>
   readmission_risk (side_b (risk_agent sample_agents)) = Absent \<and>
   (\<exists>m. transformBackendResponse (Some sample_payload) = Inr m \<and>
      outcome_readmission_risk (outcome_a m) = Str ''High'' \<and>
      outcome_readmission_risk (outcome_b m) = Str ''Medium'')"
proof -
  have a: "readmission_risk (side_a (risk_agent sample_agents)) = Val ''High''"
    by (simp add: sample_agents_def side_a_def)
  have b: "readmission_risk (side_b (risk_agent sample_agents)) = Absent"
    by (simp add: sample_agents_def side_b_def empty_obj_def)
  have p: "toLowerCase ''High'' \<notin> set Object_prototype" by code_simp
  have dm: "direct_mapping ''High'' = ''High''" by code_simp
  have th: "threshold_spec (overall_safety_score sample_b) = ''Medium''"
    by (simp add: sample_b_def threshold_spec_def)
  obtain m where m: "transformBackendResponse (Some sample_payload) = Inr m"
      "readmission_label_rule (readmission_risk (side_a (risk_agent sample_agents))) sample_a
         (outcome_readmission_risk (outcome_a m))"
      "readmission_label_rule (readmission_risk (side_b (risk_agent sample_agents))) sample_b
         (outcome_readmission_risk (outcome_b m))"
    using readmission_risk_precedence [OF sample_hyps] by blast
  have "outcome_readmission_risk (outcome_a m) = Str ''High''"
    using m(2) p dm unfolding a readmission_label_rule_def by simp
  moreover have "outcome_readmission_risk (outcome_b m) = Str ''Medium''"
    using m(3) th unfolding b readmission_label_rule_def by simp
  ultimately show ?thesis using sample_hyps a b p m(1) by blast
qed

text \<open>
  A field that is present does not always give the direct mapping: the empty string is
  present, the specification would pass it through, and the source falls back to the
  threshold, here Low for a safety score of 8.
\<close>

theorem empty_readmission_risk_falls_back:
  "transformBackendResponse
     (Some \<lparr>agents =
              Some (no_agents\<lparr>risk_agent :=
                      Some \<lparr>treatment_a = Some (empty_obj\<lparr>readmission_risk := Val []\<rparr>),
                            treatment_b = None\<rparr>\<rparr>),
            comparison =
              Some \<lparr>treatment_a = Some (empty_side\<lparr>overall_safety_score := Val 8\<rparr>),
                    treatment_b = Some empty_side\<rparr>,
            final_notes = Absent\<rparr>) =
     Inr (build_model
            (no_agents\<lparr>risk_agent :=
               Some \<lparr>treatment_a = Some (empty_obj\<lparr>readmission_risk := Val []\<rparr>),
                     treatment_b = None\<rparr>\<rparr>)
            (empty_side\<lparr>overall_safety_score := Val 8\<rparr>) empty_side Absent) \<and>
   outcome_readmission_risk
     (outcome_a
        (build_model
           (no_agents\<lparr>risk_agent :=
              Some \<lparr>treatment_a = Some (empty_obj\<lparr>readmission_risk := Val []\<rparr>),
                    treatment_b = None\<rparr>\<rparr>)
           (empty_side\<lparr>overall_safety_score := Val 8\<rparr>) empty_side Absent)) = Str ''Low'' \<and>
   readmission_risk_spec (Val []) (Val 8) = Str []"
proof -
  have "transformBackendResponse
     (Some \<lparr>agents =
              Some (no_agents\<lparr>risk_agent :=
                      Some \<lparr>treatment_a = Some (empty_obj\<lparr>readmission_risk := Val []\<rparr>),
                            treatment_b = None\<rparr>\<rparr>),
            comparison =
              Some \<lparr>treatment_a = Some (empty_side\<lparr>overall_safety_score := Val 8\<rparr>),
                    treatment_b = Some empty_side\<rparr>,
            final_notes = Absent\<rparr>) =
     Inr (build_model
            (no_agents\<lparr>risk_agent :=
               Some \<lparr>treatment_a = Some (empty_obj\<lparr>readmission_risk := Val []\<rparr>),
                     treatment_b = None\<rparr>\<rparr>)
            (empty_side\<lparr>overall_safety_score := Val 8\<rparr>) empty_side Absent)"
    by (simp add: transformBackendResponse_def)
  moreover have "outcome_readmission_risk
     (outcome_a
        (build_model
           (no_agents\<lparr>risk_agent :=
              Some \<lparr>treatment_a = Some (empty_obj\<lparr>readmission_risk := Val []\<rparr>),
                    treatment_b = None\<rparr>\<rparr>)
           (empty_side\<lparr>overall_safety_score := Val 8\<rparr>) empty_side Absent)) = Str ''Low''"
    by code_simp
  moreover have "readmission_risk_spec (Val []) (Val 8) = Str []"
    by code_simp
  ultimately show ?thesis by blast
qed

section \<open>The reasoning list\<close>

lemma reasoning_shape:
  fixes rest :: "string list"
  assumes "a \<noteq> []" and "b \<noteq> []"
  shows "2 \<le> length (take 5 (filter (\<lambda>r. r \<noteq> [] \<and> length r > 0) ([a, b] @ rest))) \<and>
         length (take 5 (filter (\<lambda>r. r \<noteq> [] \<and> length r > 0) ([a, b] @ rest))) \<le> 5 \<and>
         (\<forall>r \<in> set (take 5 (filter (\<lambda>r. r \<noteq> [] \<and> length r > 0) ([a, b] @ rest))). r \<noteq> []) \<and>
         take 2 (take 5 (filter (\<lambda>r. r \<noteq> [] \<and> length r > 0) ([a, b] @ rest))) = [a, b]"
proof -
  let ?rs = "take 5 (filter (\<lambda>r. r \<noteq> [] \<and> length r > 0) ([a, b] @ rest))"
  have rs: "?rs = a # b # take 3 (filter (\<lambda>r. r \<noteq> [] \<and> length r > 0) rest)"
    using assms by simp
  have "2 \<le> length ?rs" by (simp only: rs) simp
  moreover have "length ?rs \<le> 5" by simp
  moreover have "take 2 ?rs = [a, b]" by (simp only: rs) simp
  moreover have "\<forall>r \<in> set ?rs. r \<noteq> []"
  proof
    fix r assume "r \<in> set ?rs"
    then have "r \<in> set (filter (\<lambda>r. r \<noteq> [] \<and> length r > 0) ([a, b] @ rest))"
      using in_set_takeD by fast
    then show "r \<noteq> []" by (simp only: set_filter mem_Collect_eq simp_thms)
  qed
  ultimately show ?thesis by blast
qed

lemma summary_line_A:
  "summary_line ''Treatment A'' ca =
     ''Treatment A ('' @ template (cost_benefit_ratio ca) @ '' cost-benefit): '' @
     template (summary ca)"
  by (simp add: summary_line_def)

lemma summary_line_B:
  "summary_line ''Treatment B'' cb =
     ''Treatment B ('' @ template (cost_benefit_ratio cb) @ '' cost-benefit): '' @
     template (summary cb)"
  by (simp add: summary_line_def)

lemma build_reasoning_shape:
  "2 \<le> length (reasoning (explanation (build_model ag ca cb final))) \<and>
   length (reasoning (explanation (build_model ag ca cb final))) \<le> 5 \<and>
   (\<forall>r \<in> set (reasoning (explanation (build_model ag ca cb final))). r \<noteq> []) \<and>
   take 2 (reasoning (explanation (build_model ag ca cb final))) =
     [summary_line ''Treatment A'' ca, summary_line ''Treatment B'' cb]"
proof -
  have a: "summary_line ''Treatment A'' ca \<noteq> []" and b: "summary_line ''Treatment B'' cb \<noteq> []"
    by (simp_all add: summary_line_def)
  show ?thesis unfolding build_reasoning by (rule reasoning_shape [OF a b])
qed

text \<open>
  Claim C10. For every payload that the normalizer accepts (\<^verbatim>\<open>agents\<close> and \<^verbatim>\<open>comparison\<close>
  present, with both comparison sides), the reasoning list of the output holds at least 2
  and at most 5 strings, none of them empty, and its first two entries are the summary
  line of treatment A and the summary line of treatment B, built from the cost-benefit
  ratio and the summary of each side, before any safety warning or line of the final notes.
\<close>

theorem reasoning_entries:
  assumes "agents d = Some ag" and "comparison d = Some cmp"
    and "treatment_a cmp = Some ca" and "treatment_b cmp = Some cb"
  shows "\<exists>m. transformBackendResponse (Some d) = Inr m \<and>
           2 \<le> length (reasoning (explanation m)) \<and>
           length (reasoning (explanation m)) \<le> 5 \<and>
           (\<forall>r \<in> set (reasoning (explanation m)). r \<noteq> []) \<and>
           take 2 (reasoning (explanation m)) =
             [''Treatment A ('' @ template (cost_benefit_ratio ca) @ '' cost-benefit): '' @
                template (summary ca),
              ''Treatment B ('' @ template (cost_benefit_ratio cb) @ '' cost-benefit): '' @
                template (summary cb)]"
proof (intro exI conjI)
  show "transformBackendResponse (Some d) = Inr (build_model ag ca cb (final_notes d))"
    by (rule transform_accepts [OF assms])
  note shape = build_reasoning_shape [of ag ca cb "final_notes d"]
  show "2 \<le> length (reasoning (explanation (build_model ag ca cb (final_notes d))))"
    using shape by (rule conjunct1)
  show "length (reasoning (explanation (build_model ag ca cb (final_notes d)))) \<le> 5"
    using shape [THEN conjunct2] by (rule conjunct1)
  show "\<forall>r \<in> set (reasoning (explanation (build_model ag ca cb (final_notes d)))). r \<noteq> []"
    using shape [THEN conjunct2, THEN conjunct2] by (rule conjunct1)
  show "take 2 (reasoning (explanation (build_model ag ca cb (final_notes d)))) =
          [''Treatment A ('' @ template (cost_benefit_ratio ca) @ '' cost-benefit): '' @
             template (summary ca),
           ''Treatment B ('' @ template (cost_benefit_ratio cb) @ '' cost-benefit): '' @
             template (summary cb)]"
    using shape [THEN conjunct2, THEN conjunct2, THEN conjunct2]
    by (simp only: summary_line_A summary_line_B)
qed

text \<open>An instance: the sample payload, whose list is the two summary lines.\<close>

theorem reasoning_entries_witness:
  "agents sample_payload = Some sample_agents \<and>
   comparison sample_payload = Some sample_comparison \<and>
   treatment_a sample_comparison = Some sample_a \<and>
   treatment_b sample_comparison = Some sample_b \<and>
   (\<exists>m. transformBackendResponse (Some sample_payload) = Inr m \<and>
      2 \<le> length (reasoning (explanation m)) \<and> length (reasoning (explanation m)) \<le> 5 \<and>
      (\<forall>r \<in> set (reasoning (explanation m)). r \<noteq> []) \<and>
      take 2 (reasoning (explanation m)) =
        [''Treatment A (favorable cost-benefit): Stent'',
         ''Treatment B (neutral cost-benefit): Medication''])"
proof -
  obtain m where m: "transformBackendResponse (Some sample_payload) = Inr m"
      "2 \<le> length (reasoning (explanation m))" "length (reasoning (explanation m)) \<le> 5"
      "\<forall>r \<in> set (reasoning (explanation m)). r \<noteq> []"
      "take 2 (reasoning (explanation m)) =
         [''Treatment A ('' @ template (cost_benefit_ratio sample_a) @ '' cost-benefit): '' @
            template (summary sample_a),
          ''Treatment B ('' @ template (cost_benefit_ratio sample_b) @ '' cost-benefit): '' @
            template (summary sample_b)]"
    using reasoning_entries [OF sample_hyps] by blast
  have "take 2 (reasoning (explanation m)) =
        [''Treatment A (favorable cost-benefit): Stent'',
         ''Treatment B (neutral cost-benefit): Medication'']"
    by (simp only: m(5)) (simp add: sample_a_def sample_b_def template_def)
  then show ?thesis using sample_hyps m(1-4) by blast
qed

section \<open>Worked examples of the specification\<close>

lemma combineInsights_both:
  "combineInsights (Val ''X'') (Val ''Y'') ''Z'' =
     ''Treatment A: X'' @ [CHR 0x0A, CHR 0x0A] @ ''Treatment B: Y''"
  by code_simp

lemma combineInsights_one: "combineInsights Null (Val ''Y'') ''Z'' = ''Y''"
  by code_simp

lemma combineInsights_neither:
  "combineInsights Absent Absent ''Risk assessment'' = ''Risk assessment pending''"
  by code_simp

text \<open>No readmission level and a safety score of 6 give Medium.\<close>

lemma readmission_default_example:
  "mapReadmissionRisk Absent = None \<and>
   outcome_readmission_risk
     (make_outcome empty_obj empty_obj empty_obj empty_obj
        (empty_side\<lparr>overall_safety_score := Val 6\<rparr>)) = Str ''Medium''"
  by code_simp

text \<open>
  Banner lines and short lines are dropped, bullets and outer white space are stripped,
  and the fourth surviving line is not reached.
\<close>

lemma extractReasoningPoints_example:
  "extractReasoningPoints
     (Val (''CLINICAL DECISION SUPPORT SUMMARY'' @ [CHR 0x0A] @
           ''================================='' @ [CHR 0x0A] @
           ''- Treatment A restores flow quickly'' @ [CHR 0x0A] @
           ''too short'' @ [CHR 0x0A] @
           ''* Treatment B avoids the procedure  '' @ [CHR 0x0A] @
           ''Both options need close monitoring'' @ [CHR 0x0A] @
           ''A fourth line that is never reached'')) =
     [''Treatment A restores flow quickly'', ''Treatment B avoids the procedure'',
      ''Both options need close monitoring'']"
  by code_simp

text \<open>
  Two summary lines, two safety warnings (the first two contraindications of each side)
  and three lines of notes are seven candidates; the first five stay.
\<close>

lemma reasoning_truncation_example:
  "reasoning
     (explanation
        (build_model
           (no_agents\<lparr>safety_agent :=
              Some \<lparr>treatment_a =
                      Some (empty_obj\<lparr>identified_contraindications :=
                              Val [''bleeding risk'', ''renal function'', ''age'']\<rparr>),
                    treatment_b =
                      Some (empty_obj\<lparr>identified_contraindications :=
                              Val [''drug interaction'']\<rparr>)\<rparr>\<rparr>)
           sample_a sample_b
           (Val (''- Treatment A restores flow quickly'' @ [CHR 0x0A] @
                 ''- Treatment B avoids the procedure'' @ [CHR 0x0A] @
                 ''- Both options need close monitoring'')))) =
     [''Treatment A (favorable cost-benefit): Stent'',
      ''Treatment B (neutral cost-benefit): Medication'',
      ''Treatment A Safety: bleeding risk; renal function'',
      ''Treatment B Safety: drug interaction'',
      ''Treatment A restores flow quickly'']"
  by code_simp

section \<open>Totality and the bounds of the model\<close>














end
